theory Spec2Isabelle
  imports Complex_Main "HOL-Library.Log_Nat"
begin

unbundle bit_operations_syntax

section \<open>Values of the Penguins plugin\<close>

text \<open>
  The classes of \<^verbatim>\<open>socha/api/plugin/penguins.py\<close> as records. Python integers are
  unbounded, so every integer field is an \<^typ>\<open>int\<close>. The fields \<^verbatim>\<open>x\<close> and \<^verbatim>\<open>y\<close> of the
  two coordinate classes carry a prefix, as do the fields whose names two classes share.
\<close>

datatype error =
    IndexError       \<comment> \<open>\<^verbatim>\<open>raise IndexError("Index out of range.")\<close>\<close>
  | TypeError        \<comment> \<open>an operator applied to \<^verbatim>\<open>None\<close>, or a call with a missing argument\<close>
  | AttributeError   \<comment> \<open>a method looked up on \<^verbatim>\<open>None\<close>\<close>
  | InvalidMove      \<comment> \<open>\<^verbatim>\<open>raise Exception(f"Invalid move: {move}")\<close>\<close>
  | FishNotAllowed   \<comment> \<open>\<^verbatim>\<open>raise Exception(f"Fish value not allowed...")\<close>\<close>
  | OverflowError    \<comment> \<open>an integer division whose result is too large for a float\<close>

record Vector =
  d_x :: int
  d_y :: int

record CartesianCoordinate =
  cart_x :: int
  cart_y :: int

record HexCoordinate =
  hex_x :: int
  hex_y :: int

datatype TeamEnum = ONE | TWO

record Penguin =
  position :: HexCoordinate
  penguin_team :: TeamEnum

record Team =
  name :: TeamEnum
  penguins :: "Penguin list option"
  team_fish :: int

record Move =
  from_value :: "HexCoordinate option"
  to_value :: HexCoordinate
  team :: TeamEnum

record Field =
  coordinate :: HexCoordinate
  penguin :: "Penguin option"
  fish :: int

record Board =
  one_mask :: int
  two_mask :: int
  fish_0 :: int
  fish_1 :: int
  fish_2 :: int
  fish_3 :: int
  fish_4 :: int

record Fishes =
  fishes_one :: int
  fishes_two :: int

section \<open>Coordinate algebra\<close>

definition directions :: "Vector list" where
  "directions =
     [\<lparr>d_x = 1, d_y = -1\<rparr>, \<lparr>d_x = -2, d_y = 0\<rparr>, \<lparr>d_x = 1, d_y = 1\<rparr>,
      \<lparr>d_x = -1, d_y = 1\<rparr>, \<lparr>d_x = 2, d_y = 0\<rparr>, \<lparr>d_x = -1, d_y = -1\<rparr>]"

definition scalar_product :: "Vector \<Rightarrow> int \<Rightarrow> Vector" where
  "scalar_product v scalar = \<lparr>d_x = d_x v * scalar, d_y = d_y v * scalar\<rparr>"

definition to_hex :: "CartesianCoordinate \<Rightarrow> HexCoordinate" where
  "to_hex c = \<lparr>hex_x = cart_x c * 2 + (if cart_y c mod 2 = 1 then 1 else 0), hex_y = cart_y c\<rparr>"

definition to_index :: "CartesianCoordinate \<Rightarrow> int option" where
  "to_index c =
     (if 0 \<le> cart_x c \<and> cart_x c \<le> 7 \<and> 0 \<le> cart_y c \<and> cart_y c \<le> 7
      then Some (cart_y c * 8 + cart_x c) else None)"

text \<open>
  \<^verbatim>\<open>from_index\<close> computes the row as \<^verbatim>\<open>int(index / 8)\<close>: a float division, then
  truncation. It is reached only for \<^verbatim>\<open>0 <= index <= 63\<close>, where the quotient is exact
  and not negative, so the truncation is \<^term>\<open>index div 8\<close>.
\<close>

definition from_index :: "int \<Rightarrow> error + CartesianCoordinate" where
  "from_index index =
     (if 0 \<le> index \<and> index \<le> 63
      then Inr \<lparr>cart_x = index mod 8, cart_y = index div 8\<rparr>
      else Inl IndexError)"

text \<open>
  \<^verbatim>\<open>to_cartesian\<close> is \<^verbatim>\<open>math.floor((self.x / 2 - (1 if self.y % 2 == 1 else 0)) + 0.5)\<close>,
  written here over the reals. Python evaluates it in double precision, which is exact for
  halves of integers below \<open>2 ^ 52\<close> in absolute value; the model is the code on that range.
\<close>

definition to_cartesian :: "HexCoordinate \<Rightarrow> CartesianCoordinate" where
  "to_cartesian h =
     \<lparr>cart_x = \<lfloor>(real_of_int (hex_x h) / 2 - (if hex_y h mod 2 = 1 then 1 else 0)) + 1 / 2\<rfloor>,
      cart_y = hex_y h\<rparr>"

definition add_vector :: "HexCoordinate \<Rightarrow> Vector \<Rightarrow> HexCoordinate" where
  "add_vector h v = \<lparr>hex_x = hex_x h + d_x v, hex_y = hex_y h + d_y v\<rparr>"

definition opponent :: "Team \<Rightarrow> Team" where
  "opponent t =
     (if name t = ONE then \<lparr>name = TWO, penguins = Some [], team_fish = 0\<rparr>
      else \<lparr>name = ONE, penguins = Some [], team_fish = 0\<rparr>)"

section \<open>Board\<close>

text \<open>
  The seven masks are Python integers. \<^verbatim>\<open>1 << index\<close> is \<^term>\<open>bit_at index\<close>; every
  index that reaches a shift below comes out of \<^verbatim>\<open>to_index\<close> or has passed
  \<^verbatim>\<open>from_index\<close>, so it lies in \<open>0..63\<close> (Python's shift raises on a negative count,
  which no path modelled here produces).
\<close>

definition bit_at :: "int \<Rightarrow> int" where
  "bit_at index = push_bit (nat index) 1"

definition get_penguin :: "Board \<Rightarrow> HexCoordinate \<Rightarrow> error + Penguin option" where
  "get_penguin b coord =
     (case to_index (to_cartesian coord) of
        None \<Rightarrow> Inl TypeError
      | Some index \<Rightarrow>
          if one_mask b AND bit_at index \<noteq> 0
          then Inr (Some \<lparr>position = coord, penguin_team = ONE\<rparr>)
          else if two_mask b AND bit_at index \<noteq> 0
          then Inr (Some \<lparr>position = coord, penguin_team = TWO\<rparr>)
          else Inr None)"

definition get_fish :: "Board \<Rightarrow> int \<Rightarrow> int" where
  "get_fish b index =
     (if fish_0 b AND bit_at index \<noteq> 0 then 0
      else if fish_1 b AND bit_at index \<noteq> 0 then 1
      else if fish_2 b AND bit_at index \<noteq> 0 then 2
      else if fish_3 b AND bit_at index \<noteq> 0 then 3
      else if fish_4 b AND bit_at index \<noteq> 0 then 4
      else 0)"

definition get_field :: "Board \<Rightarrow> int \<Rightarrow> error + Field" where
  "get_field b index =
     (case from_index index of
        Inl e \<Rightarrow> Inl e
      | Inr c \<Rightarrow>
          let coord = to_hex c in
          (case get_penguin b coord of
             Inl e \<Rightarrow> Inl e
           | Inr p \<Rightarrow>
               (case to_index (to_cartesian coord) of
                  None \<Rightarrow> Inl TypeError
                | Some j \<Rightarrow> Inr \<lparr>coordinate = coord, penguin = p, fish = get_fish b j\<rparr>)))"

text \<open>
  \<^verbatim>\<open>get_field\<close> called with the result of \<^verbatim>\<open>to_index\<close>, which may be \<^verbatim>\<open>None\<close>:
  \<^verbatim>\<open>from_index\<close> then fails on \<^verbatim>\<open>0 <= None\<close>.
\<close>

definition get_field_opt :: "Board \<Rightarrow> int option \<Rightarrow> error + Field" where
  "get_field_opt b index =
     (case index of None \<Rightarrow> Inl TypeError | Some i \<Rightarrow> get_field b i)"

definition is_occupied :: "Board \<Rightarrow> int \<Rightarrow> bool" where
  "is_occupied b index = (one_mask b AND bit_at index \<noteq> 0 \<or> two_mask b AND bit_at index \<noteq> 0)"

definition is_valid :: "int \<Rightarrow> bool" where
  "is_valid index = (index < 64)"

definition is_team :: "Board \<Rightarrow> TeamEnum \<Rightarrow> int \<Rightarrow> bool" where
  "is_team b t index =
     (case t of ONE \<Rightarrow> one_mask b AND bit_at index \<noteq> 0
              | TWO \<Rightarrow> two_mask b AND bit_at index \<noteq> 0)"

text \<open>
  Methods that assign to \<^verbatim>\<open>self\<close> return a pair: what the call returns or raises, and
  the object after the call. An exception leaves the assignments made before it in place.
\<close>

definition update :: "Board \<Rightarrow> Move \<Rightarrow> (error + unit) \<times> Board" where
  "update b m =
     (case from_value m of
        Some fr \<Rightarrow>
          (let from_coord = to_index (to_cartesian fr);
               to_coord = to_index (to_cartesian (to_value m))
           in case team m of
                ONE \<Rightarrow>
                  (case from_coord of
                     None \<Rightarrow> (Inl TypeError, b)
                   | Some f \<Rightarrow>
                       (let b1 = b\<lparr>one_mask := one_mask b XOR bit_at f\<rparr>
                        in case to_coord of
                             None \<Rightarrow> (Inl TypeError, b1)
                           | Some t \<Rightarrow> (Inr (), b1\<lparr>one_mask := one_mask b1 OR bit_at t\<rparr>)))
              | TWO \<Rightarrow>
                  (case from_coord of
                     None \<Rightarrow> (Inl TypeError, b)
                   | Some f \<Rightarrow>
                       (let b1 = b\<lparr>two_mask := two_mask b XOR bit_at f\<rparr>
                        in case to_coord of
                             None \<Rightarrow> (Inl TypeError, b1)
                           | Some t \<Rightarrow> (Inr (), b1\<lparr>two_mask := two_mask b1 OR bit_at t\<rparr>))))
      | None \<Rightarrow>
          (let to_coord = to_index (to_cartesian (to_value m))
           in case team m of
                ONE \<Rightarrow>
                  (case to_coord of
                     None \<Rightarrow> (Inl TypeError, b)
                   | Some t \<Rightarrow> (Inr (), b\<lparr>one_mask := one_mask b OR bit_at t\<rparr>))
              | TWO \<Rightarrow>
                  (case to_coord of
                     None \<Rightarrow> (Inl TypeError, b)
                   | Some t \<Rightarrow> (Inr (), b\<lparr>two_mask := two_mask b OR bit_at t\<rparr>))))"

definition or_bit :: "int \<Rightarrow> int option \<Rightarrow> error + int" where
  "or_bit bits index =
     (case index of None \<Rightarrow> Inl TypeError | Some i \<Rightarrow> Inr (bits OR bit_at i))"

definition set_field :: "Board \<Rightarrow> Field \<Rightarrow> (error + unit) \<times> Board" where
  "set_field b fld =
     (case penguin fld of
        Some p \<Rightarrow>
          (let index = to_index (to_cartesian (position p))
           in case penguin_team p of
                ONE \<Rightarrow>
                  (case or_bit (one_mask b) index of
                     Inl e \<Rightarrow> (Inl e, b) | Inr v \<Rightarrow> (Inr (), b\<lparr>one_mask := v\<rparr>))
              | TWO \<Rightarrow>
                  (case or_bit (two_mask b) index of
                     Inl e \<Rightarrow> (Inl e, b) | Inr v \<Rightarrow> (Inr (), b\<lparr>two_mask := v\<rparr>)))
      | None \<Rightarrow>
          (let index = to_index (to_cartesian (coordinate fld))
           in if fish fld = 0
              then (case or_bit (fish_0 b) index of
                      Inl e \<Rightarrow> (Inl e, b) | Inr v \<Rightarrow> (Inr (), b\<lparr>fish_0 := v\<rparr>))
              else if fish fld = 1
              then (case or_bit (fish_1 b) index of
                      Inl e \<Rightarrow> (Inl e, b) | Inr v \<Rightarrow> (Inr (), b\<lparr>fish_1 := v\<rparr>))
              else if fish fld = 2
              then (case or_bit (fish_2 b) index of
                      Inl e \<Rightarrow> (Inl e, b) | Inr v \<Rightarrow> (Inr (), b\<lparr>fish_2 := v\<rparr>))
              else if fish fld = 3
              then (case or_bit (fish_3 b) index of
                      Inl e \<Rightarrow> (Inl e, b) | Inr v \<Rightarrow> (Inr (), b\<lparr>fish_3 := v\<rparr>))
              else if fish fld = 4
              then (case or_bit (fish_4 b) index of
                      Inl e \<Rightarrow> (Inl e, b) | Inr v \<Rightarrow> (Inr (), b\<lparr>fish_4 := v\<rparr>))
              else (Inl FishNotAllowed, b)))"

text \<open>
  \<^verbatim>\<open>Board.move\<close> starts with \<^verbatim>\<open>new_board = self\<close>: the board it returns is the object
  it was called on. It reads \<^verbatim>\<open>move.from_value.to_cartesian()\<close> before anything else,
  which fails on a placement move.
\<close>

definition Board_move :: "Board \<Rightarrow> Move \<Rightarrow> (error + Board) \<times> Board" where
  "Board_move b m =
     (case from_value m of
        None \<Rightarrow> (Inl AttributeError, b)
      | Some origin \<Rightarrow>
          (let origin_index = to_index (to_cartesian origin);
               destination_index = to_index (to_cartesian (to_value m))
           in case get_field_opt b origin_index of
                Inl e \<Rightarrow> (Inl e, b)
              | Inr origin_field \<Rightarrow>
                  (case get_field_opt b destination_index of
                     Inl e \<Rightarrow> (Inl e, b)
                   | Inr destination_field \<Rightarrow>
                       (case set_field b origin_field of
                          (Inl e, b1) \<Rightarrow> (Inl e, b1)
                        | (Inr u, b1) \<Rightarrow>
                            (case set_field b1 destination_field of
                               (Inl e, b2) \<Rightarrow> (Inl e, b2)
                             | (Inr v, b2) \<Rightarrow> (Inr b2, b2))))))"

text \<open>
  A \<^verbatim>\<open>for\<close> loop that appends to a list, stopping at the first exception.
\<close>

fun collect :: "('a \<Rightarrow> error + 'b list) \<Rightarrow> 'a list \<Rightarrow> error + 'b list" where
  "collect f [] = Inr []"
| "collect f (x # xs) =
     (case f x of
        Inl e \<Rightarrow> Inl e
      | Inr ys \<Rightarrow> (case collect f xs of Inl e \<Rightarrow> Inl e | Inr zs \<Rightarrow> Inr (ys @ zs)))"

definition penguin_at :: "TeamEnum \<Rightarrow> int \<Rightarrow> error + Penguin list" where
  "penguin_at t index =
     (case from_index index of
        Inl e \<Rightarrow> Inl e
      | Inr c \<Rightarrow> Inr [\<lparr>position = to_hex c, penguin_team = t\<rparr>])"

definition get_teams_penguins :: "Board \<Rightarrow> TeamEnum \<Rightarrow> error + Penguin list" where
  "get_teams_penguins b t =
     collect
       (\<lambda>index.
          case (if t = ONE \<and> drop_bit (nat index) (one_mask b) AND 1 \<noteq> 0
                then penguin_at ONE index else Inr []) of
            Inl e \<Rightarrow> Inl e
          | Inr ps \<Rightarrow>
              (case (if t = TWO \<and> drop_bit (nat index) (two_mask b) AND 1 \<noteq> 0
                     then penguin_at TWO index else Inr []) of
                 Inl e \<Rightarrow> Inl e
               | Inr qs \<Rightarrow> Inr (ps @ qs)))
       (map int [0..<64])"

definition most_fish_at :: "Board \<Rightarrow> int \<Rightarrow> int \<Rightarrow> error + Field list" where
  "most_fish_at b max_fish i =
     (case from_index i of
        Inl e \<Rightarrow> Inl e
      | Inr c \<Rightarrow>
          let coord = to_hex c in
          (case to_index (to_cartesian coord) of
             None \<Rightarrow> Inl TypeError
           | Some j \<Rightarrow>
               let fld = \<lparr>coordinate = coord, penguin = None, fish = get_fish b j\<rparr> in
               if fish_0 b AND bit_at i \<noteq> 0 \<and> fish_0 b = max_fish then Inr [fld]
               else if fish_1 b AND bit_at i \<noteq> 0 \<and> fish_1 b = max_fish then Inr [fld]
               else if fish_2 b AND bit_at i \<noteq> 0 \<and> fish_2 b = max_fish then Inr [fld]
               else if fish_3 b AND bit_at i \<noteq> 0 \<and> fish_3 b = max_fish then Inr [fld]
               else if fish_4 b AND bit_at i \<noteq> 0 \<and> fish_4 b = max_fish then Inr [fld]
               else Inr []))"

definition get_most_fish :: "Board \<Rightarrow> error + Field list" where
  "get_most_fish b =
     (let max_fish = max (fish_0 b) (max (fish_1 b) (max (fish_2 b) (max (fish_3 b) (fish_4 b))))
      in collect (most_fish_at b max_fish) (map int [0..<64]))"

section \<open>Slides along a direction\<close>

definition step_index :: "int \<Rightarrow> Vector \<Rightarrow> error + int option" where
  "step_index index direction =
     (case from_index index of
        Inl e \<Rightarrow> Inl e
      | Inr c \<Rightarrow> Inr (to_index (to_cartesian (add_vector (to_hex c) direction))))"

text \<open>
  The \<^verbatim>\<open>while\<close> loop of \<^verbatim>\<open>get_directive_moves\<close>. Nothing in the loop bounds the number
  of iterations for an arbitrary direction, so a run that does not end is the value
  \<^term>\<open>None\<close>.
\<close>

partial_function (option) directive_loop ::
  "Board \<Rightarrow> HexCoordinate \<Rightarrow> Vector \<Rightarrow> TeamEnum \<Rightarrow> int option \<Rightarrow> Move list
     \<Rightarrow> (error + Move list) option" where
  "directive_loop b origin direction t new_index moves =
     (case new_index of
        None \<Rightarrow> Some (Inr moves)
      | Some i \<Rightarrow>
          if is_valid i \<and> \<not> is_occupied b i \<and> get_fish b i > 0
          then (case from_index i of
                  Inl e \<Rightarrow> Some (Inl e)
                | Inr c \<Rightarrow>
                    (case step_index i direction of
                       Inl e \<Rightarrow> Some (Inl e)
                     | Inr nxt \<Rightarrow>
                         directive_loop b origin direction t nxt
                           (moves @ [\<lparr>from_value = Some origin, to_value = to_hex c, team = t\<rparr>])))
          else Some (Inr moves))"

definition get_directive_moves ::
  "Board \<Rightarrow> int \<Rightarrow> Vector \<Rightarrow> TeamEnum \<Rightarrow> (error + Move list) option" where
  "get_directive_moves b index direction t =
     (case from_index index of
        Inl e \<Rightarrow> Some (Inl e)
      | Inr c \<Rightarrow>
          let origin = to_hex c in
          if is_team b t index
          then (case step_index index direction of
                  Inl e \<Rightarrow> Some (Inl e)
                | Inr new_index \<Rightarrow> directive_loop b origin direction t new_index [])
          else Some (Inr []))"

fun moves_over :: "Board \<Rightarrow> int \<Rightarrow> TeamEnum \<Rightarrow> Vector list \<Rightarrow> (error + Move list) option" where
  "moves_over b index t [] = Some (Inr [])"
| "moves_over b index t (direction # ds) =
     (case get_directive_moves b index direction t of
        None \<Rightarrow> None
      | Some (Inl e) \<Rightarrow> Some (Inl e)
      | Some (Inr ms) \<Rightarrow>
          (case moves_over b index t ds of
             None \<Rightarrow> None
           | Some (Inl e) \<Rightarrow> Some (Inl e)
           | Some (Inr ns) \<Rightarrow> Some (Inr (ms @ ns))))"

definition possible_moves_from :: "Board \<Rightarrow> int \<Rightarrow> TeamEnum \<Rightarrow> (error + Move list) option" where
  "possible_moves_from b index t = moves_over b index t directions"

section \<open>Fish tallies and game states\<close>

definition add_fish :: "Fishes \<Rightarrow> Team \<Rightarrow> int \<Rightarrow> (error + Fishes) \<times> Fishes" where
  "add_fish f t n =
     (case name t of
        ONE \<Rightarrow> (let f1 = f\<lparr>fishes_one := fishes_one f + n\<rparr> in (Inr f1, f1))
      | TWO \<Rightarrow> (let f1 = f\<lparr>fishes_two := fishes_two f + n\<rparr> in (Inr f1, f1)))"

text \<open>
  \<^verbatim>\<open>Move\<close> defines no \<^verbatim>\<open>__eq__\<close>, so \<^verbatim>\<open>move in self.possible_moves\<close> compares object
  identities. A Move object is therefore its address paired with its content, and the
  constructor of \<^verbatim>\<open>GameState\<close> takes the first address the allocator has not handed out.
\<close>

type_synonym 'a obj = "nat \<times> 'a"

record GameState =
  start_team :: Team
  board :: Board
  turn :: int
  round_no :: int
  current_team :: Team
  other_team :: Team
  last_move :: "Move obj option"
  fishes :: Fishes
  current_pieces :: "Penguin list"
  possible_moves :: "Move obj list"

definition all_fields :: "Board \<Rightarrow> error + Field list" where
  "all_fields b =
     collect
       (\<lambda>(x, y).
          case get_field_opt b (to_index \<lparr>cart_x = x, cart_y = y\<rparr>) of
            Inl e \<Rightarrow> Inl e
          | Inr fld \<Rightarrow> Inr [fld])
       (List.product (map int [0..<8]) (map int [0..<8]))"

text \<open>
  \<^verbatim>\<open>_get_possible_moves\<close> reads \<^verbatim>\<open>self.board\<close> only: \<^verbatim>\<open>current_team.name\<close> is an enum
  member, which is true, so the \<^verbatim>\<open>or\<close> never reads \<^verbatim>\<open>self.current_team\<close>. In the branch
  for four penguins or more, \<^verbatim>\<open>self.board.possible_moves_from(penguin)\<close> is a call with one
  argument to a method of two: Python raises \<^verbatim>\<open>TypeError\<close> on the first penguin.
\<close>

definition get_possible_moves :: "Board \<Rightarrow> Team \<Rightarrow> error + Move list" where
  "get_possible_moves b current =
     (let t = name current in
      case all_fields b of
        Inl e \<Rightarrow> Inl e
      | Inr flds \<Rightarrow>
          (case get_teams_penguins b t of
             Inl e \<Rightarrow> Inl e
           | Inr ps \<Rightarrow>
               if length ps < 4
               then Inr (map (\<lambda>fld. \<lparr>from_value = None, to_value = coordinate fld, team = t\<rparr>)
                          (filter (\<lambda>fld. penguin fld = None \<and> fish fld = 1) flds))
               else (case get_teams_penguins b t of
                       Inl e \<Rightarrow> Inl e
                     | Inr qs \<Rightarrow> collect (\<lambda>p. Inl TypeError) qs)))"

definition current_team_by_turn :: "int \<Rightarrow> Team \<Rightarrow> Team" where
  "current_team_by_turn n st = (if n mod 2 = 0 then st else opponent st)"

definition current_team_from_turn :: "Board \<Rightarrow> int \<Rightarrow> Team \<Rightarrow> error + Team" where
  "current_team_from_turn b n st =
     (case get_possible_moves b (current_team_by_turn n st) of
        Inl e \<Rightarrow> Inl e
      | Inr ms \<Rightarrow>
          Inr (if ms = [] then opponent (current_team_by_turn n st)
               else current_team_by_turn n st))"

text \<open>
  The constructor computes \<^verbatim>\<open>int((self.turn + 1) / 2)\<close> before anything else. Python's
  \<^verbatim>\<open>/\<close> on integers gives the double nearest to the quotient, ties to the even
  mantissa, and raises \<^verbatim>\<open>OverflowError\<close> when that double would be \<open>2 ^ 1024\<close> or more;
  \<^verbatim>\<open>int\<close> then truncates towards zero. Below \<open>2 ^ 53\<close> the half of an integer is a
  double; from there on the quotient keeps 53 significant bits, and
  \<^term>\<open>floorlog 2 (nat a)\<close> is the number of bits of \<open>a\<close>.
\<close>

definition round_half_even :: "int \<Rightarrow> nat \<Rightarrow> int" where
  "round_half_even a s =
     (let fl = a div 2 ^ s; r = a mod 2 ^ s
      in if 2 * r < 2 ^ s then fl
         else if 2 ^ s < 2 * r then fl + 1
         else if even fl then fl else fl + 1)"

definition int_of_half :: "int \<Rightarrow> error + int" where
  "int_of_half k =
     (let a = \<bar>k\<bar>
      in if a < 2 ^ 53 then Inr (sgn k * (a div 2))
         else
           (let s = floorlog 2 (nat a) - 53;
                r = round_half_even a s * 2 ^ (s - 1)
            in if 2 ^ 1024 \<le> r then Inl OverflowError else Inr (sgn k * r)))"

definition GameState_init ::
  "nat \<Rightarrow> Board \<Rightarrow> int \<Rightarrow> Team \<Rightarrow> Fishes \<Rightarrow> Move obj option \<Rightarrow> error + GameState" where
  "GameState_init free b n st fs lm =
     (case int_of_half (n + 1) of
        Inl e \<Rightarrow> Inl e
      | Inr r \<Rightarrow>
          (case current_team_from_turn b n st of
             Inl e \<Rightarrow> Inl e
           | Inr ct \<Rightarrow>
               (case current_team_from_turn b n st of
                  Inl e \<Rightarrow> Inl e
                | Inr ct2 \<Rightarrow>
                    (case get_teams_penguins b (name ct) of
                       Inl e \<Rightarrow> Inl e
                     | Inr pieces \<Rightarrow>
                         (case get_possible_moves b ct of
                            Inl e \<Rightarrow> Inl e
                          | Inr ms \<Rightarrow>
                              Inr \<lparr>start_team = st, board = b, turn = n, round_no = r,
                                   current_team = ct, other_team = opponent ct2,
                                   last_move = lm, fishes = fs, current_pieces = pieces,
                                   possible_moves = zip [free..<free + length ms] ms\<rparr>)))))"

definition is_valid_move :: "GameState \<Rightarrow> Move obj \<Rightarrow> bool" where
  "is_valid_move s m = (fst m \<in> set (map fst (possible_moves s)))"

text \<open>
  \<^verbatim>\<open>perform_move\<close> returns the new state or raises; the second component is \<^verbatim>\<open>self\<close>
  after the call. \<^verbatim>\<open>self.board.move\<close> and \<^verbatim>\<open>self.fishes.add_fish\<close> assign to the
  objects that \<^verbatim>\<open>self\<close> holds.
\<close>

definition perform_move :: "nat \<Rightarrow> GameState \<Rightarrow> Move obj \<Rightarrow> (error + GameState) \<times> GameState" where
  "perform_move free s m =
     (if \<not> is_valid_move s m then (Inl InvalidMove, s)
      else
        (case Board_move (board s) (snd m) of
           (Inl e, b1) \<Rightarrow> (Inl e, s\<lparr>board := b1\<rparr>)
         | (Inr new_board, b1) \<Rightarrow>
             (let s1 = s\<lparr>board := b1\<rparr>
              in case get_field_opt new_board (to_index (to_cartesian (to_value (snd m)))) of
                   Inl e \<Rightarrow> (Inl e, s1)
                 | Inr fld \<Rightarrow>
                     (case add_fish (fishes s1) (current_team s1) (fish fld) of
                        (Inl e, f1) \<Rightarrow> (Inl e, s1\<lparr>fishes := f1\<rparr>)
                      | (Inr new_fishes, f1) \<Rightarrow>
                          (let s2 = s1\<lparr>fishes := f1\<rparr>
                           in case GameState_init free new_board (turn s2 + 1) (start_team s2)
                                     new_fishes (Some m) of
                                Inl e \<Rightarrow> (Inl e, s2)
                              | Inr n \<Rightarrow> (Inr n, s2))))))"

section \<open>Boards and moves of the scenarios\<close>

text \<open>
  Scenario A of the specification: a penguin of team ONE on cell 0, one fish on cells 1
  and 2, nothing else.
\<close>

definition scenario_A :: Board where
  "scenario_A =
     \<lparr>one_mask = 1, two_mask = 0, fish_0 = 0, fish_1 = 6, fish_2 = 0, fish_3 = 0, fish_4 = 0\<rparr>"

definition team_one :: Team where
  "team_one = \<lparr>name = ONE, penguins = Some [], team_fish = 0\<rparr>"

definition no_fishes :: Fishes where
  "no_fishes = \<lparr>fishes_one = 0, fishes_two = 0\<rparr>"

definition slide_A :: Move where
  "slide_A =
     \<lparr>from_value = Some \<lparr>hex_x = 0, hex_y = 0\<rparr>, to_value = \<lparr>hex_x = 2, hex_y = 0\<rparr>, team = ONE\<rparr>"

definition place_A :: Move where
  "place_A = \<lparr>from_value = None, to_value = \<lparr>hex_x = 2, hex_y = 0\<rparr>, team = ONE\<rparr>"

text \<open>
  The state the constructor builds for scenario A (turn 0, team ONE starts), with the
  list \<^verbatim>\<open>possible_moves\<close> then set to the slide from cell 0 to cell 1.
\<close>

definition sliding_state :: GameState where
  "sliding_state =
     \<lparr>start_team = team_one, board = scenario_A, turn = 0, round_no = 0,
      current_team = team_one, other_team = opponent team_one, last_move = None,
      fishes = no_fishes,
      current_pieces = [\<lparr>position = \<lparr>hex_x = 0, hex_y = 0\<rparr>, penguin_team = ONE\<rparr>],
      possible_moves = [(10, slide_A)]\<rparr>"

text \<open>Team ONE has its four penguins on cells 0 to 3; cells 4 to 7 hold one fish each.\<close>

definition four_placed :: Board where
  "four_placed =
     \<lparr>one_mask = 15, two_mask = 0, fish_0 = 0, fish_1 = 240, fish_2 = 0, fish_3 = 0, fish_4 = 0\<rparr>"

text \<open>Cell 0 holds four fish and cell 1 holds none.\<close>

definition four_and_none :: Board where
  "four_and_none =
     \<lparr>one_mask = 0, two_mask = 0, fish_0 = 2, fish_1 = 0, fish_2 = 0, fish_3 = 0, fish_4 = 1\<rparr>"

text \<open>A board with no penguin and no fish.\<close>

definition empty_board :: Board where
  "empty_board =
     \<lparr>one_mask = 0, two_mask = 0, fish_0 = 0, fish_1 = 0, fish_2 = 0, fish_3 = 0, fish_4 = 0\<rparr>"

section \<open>The straight ray of a slide\<close>

text \<open>
  What the statement about \<^verbatim>\<open>get_directive_moves\<close> speaks of: the hex coordinate \<open>k\<close>
  steps from the cell \<open>index\<close> in direction \<open>d\<close>, whether a penguin may land on a hex
  coordinate (it is a cell of the board, no penguin stands on it and its fish count is
  positive), and the move that slides \<open>k\<close> steps.
\<close>

definition ray_cell :: "int \<Rightarrow> Vector \<Rightarrow> nat \<Rightarrow> HexCoordinate" where
  "ray_cell index d k =
     add_vector (to_hex \<lparr>cart_x = index mod 8, cart_y = index div 8\<rparr>) (scalar_product d (int k))"

definition landing :: "Board \<Rightarrow> HexCoordinate \<Rightarrow> bool" where
  "landing b h =
     (case to_index (to_cartesian h) of
        None \<Rightarrow> False
      | Some j \<Rightarrow> \<not> is_occupied b j \<and> get_fish b j > 0)"

definition slide_to :: "int \<Rightarrow> Vector \<Rightarrow> TeamEnum \<Rightarrow> nat \<Rightarrow> Move" where
  "slide_to index d t k =
     \<lparr>from_value = Some (ray_cell index d 0), to_value = ray_cell index d k, team = t\<rparr>"

section \<open>Lemmas on the coordinate algebra\<close>

lemma to_cartesian_int:
  "to_cartesian h =
     \<lparr>cart_x = (hex_x h + 1) div 2 - (if hex_y h mod 2 = 1 then 1 else 0), cart_y = hex_y h\<rparr>"
proof -
  have half: "\<lfloor>real_of_int k / 2\<rfloor> = k div 2" for k :: int
    using floor_divide_of_int_eq [of k 2, where ?'a = real] by simp
  have a: "real_of_int (hex_x h) / 2 + 1 / 2 = real_of_int (hex_x h + 1) / 2"
    by simp
  have b: "real_of_int (hex_x h) / 2 - 1 + 1 / 2 = real_of_int (hex_x h + 1 - 2) / 2"
    by simp
  show ?thesis
  proof (cases "hex_y h mod 2 = 1")
    case True
    have "\<lfloor>real_of_int (hex_x h) / 2 - 1 + 1 / 2\<rfloor> = (hex_x h + 1 - 2) div 2"
      unfolding b by (rule half)
    then show ?thesis using True by (simp add: to_cartesian_def)
  next
    case False
    have "\<lfloor>real_of_int (hex_x h) / 2 + 1 / 2\<rfloor> = (hex_x h + 1) div 2"
      unfolding a by (rule half)
    then show ?thesis using False by (simp add: to_cartesian_def)
  qed
qed

lemma to_cartesian_to_hex: "to_cartesian (to_hex c) = c"
  by (simp add: to_cartesian_int to_hex_def)

lemma from_index_in_range:
  "0 \<le> i \<Longrightarrow> i \<le> 63 \<Longrightarrow> from_index i = Inr \<lparr>cart_x = i mod 8, cart_y = i div 8\<rparr>"
  by (simp add: from_index_def)

lemma to_hex_to_cartesian:
  assumes "hex_x h mod 2 = hex_y h mod 2"
  shows "to_hex (to_cartesian h) = h"
proof (cases h)
  case (fields x y)
  with assms have "x mod 2 = y mod 2" by simp
  then have "((x + 1) div 2 - (if y mod 2 = 1 then 1 else 0)) * 2 + (if y mod 2 = 1 then 1 else 0) = x"
    by presburger
  then show ?thesis by (simp add: fields to_cartesian_int to_hex_def)
qed

lemma from_index_to_index:
  assumes "to_index c = Some j"
  shows "from_index j = Inr c \<and> 0 \<le> j \<and> j \<le> 63"
proof (cases c)
  case (fields x y)
  with assms have r: "0 \<le> x" "x \<le> 7" "0 \<le> y" "y \<le> 7" and j: "j = y * 8 + x"
    by (auto simp: to_index_def split: if_splits)
  from r j have "j mod 8 = x" "j div 8 = y" "0 \<le> j" "j \<le> 63" by auto
  then show ?thesis by (simp add: from_index_def fields)
qed

lemma to_index_in_range:
  "0 \<le> i \<Longrightarrow> i \<le> 63 \<Longrightarrow> to_index \<lparr>cart_x = i mod 8, cart_y = i div 8\<rparr> = Some i"
  by (auto simp: to_index_def)

declare to_cartesian_int [code]

declare directive_loop.simps [code]

text \<open>The round of a small turn is the exact half, truncated towards zero.\<close>

lemma int_of_half_small:
  "int_of_half 1 = Inr 0 \<and> int_of_half 8 = Inr 4 \<and> int_of_half (- 3) = Inr (- 1)"
  by code_simp

section \<open>Coordinate round trips\<close>

text \<open>
  Claim C8. Every linear index from 0 to 63 converts to a cartesian coordinate
  (\<^verbatim>\<open>from_index\<close> does not raise) and \<^verbatim>\<open>to_index\<close> of that coordinate is the index
  again; every cartesian coordinate with both components from 0 to 7 is the
  \<^verbatim>\<open>to_cartesian\<close> of its \<^verbatim>\<open>to_hex\<close>.
\<close>

theorem index_cartesian_hex_roundtrip:
  "(\<forall>i. 0 \<le> i \<and> i \<le> 63 \<longrightarrow> (\<exists>c. from_index i = Inr c \<and> to_index c = Some i)) \<and>
   (\<forall>x y. 0 \<le> x \<and> x \<le> 7 \<and> 0 \<le> y \<and> y \<le> 7 \<longrightarrow>
      to_cartesian (to_hex \<lparr>cart_x = x, cart_y = y\<rparr>) = \<lparr>cart_x = x, cart_y = y\<rparr>)"
proof (intro conjI allI impI)
  fix i :: int
  assume r: "0 \<le> i \<and> i \<le> 63"
  then have "from_index i = Inr \<lparr>cart_x = i mod 8, cart_y = i div 8\<rparr>"
    by (simp add: from_index_def)
  moreover from r have "to_index \<lparr>cart_x = i mod 8, cart_y = i div 8\<rparr> = Some i"
    by (auto simp: to_index_def)
  ultimately show "\<exists>c. from_index i = Inr c \<and> to_index c = Some i"
    by blast
next
  fix x y :: int
  show "to_cartesian (to_hex \<lparr>cart_x = x, cart_y = y\<rparr>) = \<lparr>cart_x = x, cart_y = y\<rparr>"
    by (rule to_cartesian_to_hex)
qed

theorem index_cartesian_hex_roundtrip_witness:
  "(\<exists>c. from_index 13 = Inr c \<and> to_index c = Some 13) \<and>
   to_cartesian (to_hex \<lparr>cart_x = 5, cart_y = 3\<rparr>) = \<lparr>cart_x = 5, cart_y = 3\<rparr>"
  using index_cartesian_hex_roundtrip by simp

section \<open>The in-place update of a board\<close>

text \<open>
  Claim C10. For a move whose origin and destination are cells of the board,
  \<^verbatim>\<open>Board.update\<close> returns normally and leaves the board with the origin bit XORed and then
  the destination bit ORed into the mask of the move's team, every other mask as it was.
  For a placement move onto a cell of the board it only ORs the destination bit into that
  mask.
\<close>

theorem update_masks:
  "(\<forall>b m fr f d.
      from_value m = Some fr \<and> to_index (to_cartesian fr) = Some f \<and>
      to_index (to_cartesian (to_value m)) = Some d \<longrightarrow>
      update b m =
        (Inr (),
         case team m of
           ONE \<Rightarrow> b\<lparr>one_mask := (one_mask b XOR bit_at f) OR bit_at d\<rparr>
         | TWO \<Rightarrow> b\<lparr>two_mask := (two_mask b XOR bit_at f) OR bit_at d\<rparr>)) \<and>
   (\<forall>b m d.
      from_value m = None \<and> to_index (to_cartesian (to_value m)) = Some d \<longrightarrow>
      update b m =
        (Inr (),
         case team m of
           ONE \<Rightarrow> b\<lparr>one_mask := one_mask b OR bit_at d\<rparr>
         | TWO \<Rightarrow> b\<lparr>two_mask := two_mask b OR bit_at d\<rparr>))"
  by (auto simp: update_def Let_def split: TeamEnum.splits)

theorem update_masks_witness:
  "update scenario_A slide_A = (Inr (), scenario_A\<lparr>one_mask := 2\<rparr>) \<and>
   update scenario_A place_A = (Inr (), scenario_A\<lparr>one_mask := 3\<rparr>)"
proof -
  have a: "from_value slide_A = Some \<lparr>hex_x = 0, hex_y = 0\<rparr> \<and>
      to_index (to_cartesian \<lparr>hex_x = 0, hex_y = 0\<rparr>) = Some 0 \<and>
      to_index (to_cartesian (to_value slide_A)) = Some 1"
    by (simp add: slide_A_def to_cartesian_int to_index_def)
  have b: "from_value place_A = None \<and> to_index (to_cartesian (to_value place_A)) = Some 1"
    by (simp add: place_A_def to_cartesian_int to_index_def)
  from update_masks a b
  have "update scenario_A slide_A =
          (Inr (),
           case team slide_A of
             ONE \<Rightarrow> scenario_A\<lparr>one_mask := (one_mask scenario_A XOR bit_at 0) OR bit_at 1\<rparr>
           | TWO \<Rightarrow> scenario_A\<lparr>two_mask := (two_mask scenario_A XOR bit_at 0) OR bit_at 1\<rparr>)"
    and "update scenario_A place_A =
          (Inr (),
           case team place_A of
             ONE \<Rightarrow> scenario_A\<lparr>one_mask := one_mask scenario_A OR bit_at 1\<rparr>
           | TWO \<Rightarrow> scenario_A\<lparr>two_mask := two_mask scenario_A OR bit_at 1\<rparr>)"
    by blast+
  then show ?thesis
    by (simp add: slide_A_def place_A_def scenario_A_def bit_at_def)
qed

section \<open>Where the code leaves its documentation\<close>

text \<open>
  Claim C9. \<^verbatim>\<open>get_most_fish\<close> takes the maximum of the five fish masks as numbers, not of
  the fish counts. On the board \<^term>\<open>four_and_none\<close> the largest mask is \<^verbatim>\<open>fish_0\<close>, so
  the only field returned is cell 1, which holds no fish, and cell 0 with its four fish is
  left out.
\<close>

theorem get_most_fish_compares_masks:
  "get_most_fish four_and_none =
     Inr [\<lparr>coordinate = \<lparr>hex_x = 2, hex_y = 0\<rparr>, penguin = None, fish = 0\<rparr>]"
  by code_simp

lemma or_present_bit:
  assumes "x AND bit_at i \<noteq> 0"
  shows "x OR bit_at i = x"
proof (rule bit_eqI)
  fix n
  have "bit x (nat i)"
    using assms by (simp add: bit_at_def push_bit_eq_mult and_exp_eq_0_iff_not_bit)
  then show "bit (x OR bit_at i) n = bit x n"
    by (auto simp: bit_at_def bit_or_iff bit_exp_iff)
qed

lemma get_field_penguin:
  assumes "get_field b i = Inr fld" and "penguin fld = Some p"
  shows "\<exists>j. to_index (to_cartesian (position p)) = Some j \<and>
             (case penguin_team p of
                ONE \<Rightarrow> one_mask b AND bit_at j \<noteq> 0
              | TWO \<Rightarrow> two_mask b AND bit_at j \<noteq> 0)"
  using assms
  by (auto simp: get_field_def get_penguin_def Let_def
      split: sum.splits option.splits if_splits)

lemma set_field_keeps_penguins:
  assumes "get_field b i = Inr fld"
    and "one_mask b2 = one_mask b" and "two_mask b2 = two_mask b"
  shows "one_mask (snd (set_field b2 fld)) = one_mask b \<and>
         two_mask (snd (set_field b2 fld)) = two_mask b"
proof (cases "penguin fld")
  case None
  then show ?thesis
    using assms(2,3)
    by (simp add: set_field_def Let_def or_bit_def split: option.splits)
next
  case (Some p)
  from get_field_penguin [OF assms(1) Some] obtain j
    where j: "to_index (to_cartesian (position p)) = Some j"
      and bit: "case penguin_team p of
                  ONE \<Rightarrow> one_mask b AND bit_at j \<noteq> 0
                | TWO \<Rightarrow> two_mask b AND bit_at j \<noteq> 0" by blast
  show ?thesis
  proof (cases "penguin_team p")
    case ONE
    with bit have "one_mask b OR bit_at j = one_mask b" by (simp add: or_present_bit)
    then show ?thesis
      using assms(2,3) by (simp add: set_field_def Some j ONE or_bit_def)
  next
    case TWO
    with bit have "two_mask b OR bit_at j = two_mask b" by (simp add: or_present_bit)
    then show ?thesis
      using assms(2,3) by (simp add: set_field_def Some j TWO or_bit_def)
  qed
qed

text \<open>
  Whatever the move, \<^verbatim>\<open>Board.move\<close> leaves both penguin masks of the board as they were.
\<close>

lemma Board_move_keeps_penguins:
  "one_mask (snd (Board_move b m)) = one_mask b \<and> two_mask (snd (Board_move b m)) = two_mask b"
proof (cases "from_value m")
  case None
  then show ?thesis by (simp add: Board_move_def)
next
  case (Some origin)
  show ?thesis
  proof (cases "get_field_opt b (to_index (to_cartesian origin))")
    case (Inl e)
    then show ?thesis by (simp add: Board_move_def Some)
  next
    case o: (Inr origin_field)
    show ?thesis
    proof (cases "get_field_opt b (to_index (to_cartesian (to_value m)))")
      case (Inl e)
      then show ?thesis by (simp add: Board_move_def Some o)
    next
      case d: (Inr destination_field)
      from o obtain i where i: "get_field b i = Inr origin_field"
        by (auto simp: get_field_opt_def split: option.splits)
      from d obtain k where k: "get_field b k = Inr destination_field"
        by (auto simp: get_field_opt_def split: option.splits)
      obtain r1 b1 where s1: "set_field b origin_field = (r1, b1)" by (cases "set_field b origin_field")
      obtain r2 b2 where s2: "set_field b1 destination_field = (r2, b2)"
        by (cases "set_field b1 destination_field")
      from set_field_keeps_penguins [OF i, of b] s1
      have m1: "one_mask b1 = one_mask b" "two_mask b1 = two_mask b" by simp_all
      from set_field_keeps_penguins [OF k m1] s2
      have m2: "one_mask b2 = one_mask b" "two_mask b2 = two_mask b" by simp_all
      show ?thesis
        using m1 m2
        by (simp add: Board_move_def Some o d s1 s2 split: sum.splits)
    qed
  qed
qed

text \<open>
  Claim C2. \<^verbatim>\<open>Board.move\<close> reads the two fields of the move and writes them back with
  \<^verbatim>\<open>set_field\<close>, so a slide from cell 0 to cell 1 returns the board it was given: the
  penguin stays on cell 0. A placement move raises before anything is read.
\<close>

theorem Board_move_applies_nothing:
  "Board_move scenario_A slide_A = (Inr scenario_A, scenario_A) \<and>
   Board_move scenario_A place_A = (Inl AttributeError, scenario_A)"
  by code_simp

text \<open>
  Claim C1. With four penguins of the team on the board, \<^verbatim>\<open>_get_possible_moves\<close> calls
  \<^verbatim>\<open>possible_moves_from\<close> without the team and raises; no list of slide moves is returned,
  and the constructor of \<^verbatim>\<open>GameState\<close> raises with it.
\<close>

theorem four_penguins_raise:
  "get_possible_moves four_placed team_one = Inl TypeError \<and>
   GameState_init 0 four_placed 0 team_one no_fishes None = Inl TypeError"
  by code_simp

section \<open>Legal moves and the constructor\<close>

lemma collect_total:
  "(\<And>x. x \<in> set xs \<Longrightarrow> \<exists>ys. f x = Inr ys) \<Longrightarrow> \<exists>zs. collect f xs = Inr zs"
proof (induction xs)
  case Nil
  then show ?case by simp
next
  case (Cons x xs)
  from Cons.prems obtain ys where "f x = Inr ys" by auto
  moreover from Cons obtain zs where "collect f xs = Inr zs" by auto
  ultimately show ?case by simp
qed

lemma collect_raise:
  "collect (\<lambda>p. Inl e) qs = Inr ms \<Longrightarrow> qs = [] \<and> ms = []"
  by (cases qs) auto

lemma get_field_total:
  assumes "0 \<le> i" "i \<le> 63"
  shows "\<exists>fld. get_field b i = Inr fld"
  using assms
  by (simp add: get_field_def from_index_in_range Let_def get_penguin_def
      to_cartesian_to_hex to_index_in_range)

lemma get_teams_penguins_total: "\<exists>ps. get_teams_penguins b t = Inr ps"
  unfolding get_teams_penguins_def
proof (rule collect_total)
  fix index :: int
  assume "index \<in> set (map int [0..<64])"
  then have "0 \<le> index" "index \<le> 63" by auto
  then have "penguin_at ONE index = Inr [\<lparr>position = to_hex \<lparr>cart_x = index mod 8, cart_y = index div 8\<rparr>, penguin_team = ONE\<rparr>]"
    "penguin_at TWO index = Inr [\<lparr>position = to_hex \<lparr>cart_x = index mod 8, cart_y = index div 8\<rparr>, penguin_team = TWO\<rparr>]"
    by (simp_all add: penguin_at_def from_index_in_range)
  then show "\<exists>ys. (case if t = ONE \<and> drop_bit (nat index) (one_mask b) AND 1 \<noteq> 0
                    then penguin_at ONE index else Inr [] of
               Inl e \<Rightarrow> Inl e
             | Inr ps \<Rightarrow>
                 (case if t = TWO \<and> drop_bit (nat index) (two_mask b) AND 1 \<noteq> 0
                       then penguin_at TWO index else Inr [] of
                    Inl e \<Rightarrow> Inl e | Inr qs \<Rightarrow> Inr (ps @ qs))) = Inr ys"
    by simp
qed

lemma possible_moves_are_placements:
  assumes "get_possible_moves b t = Inr ms" and "m \<in> set ms"
  shows "from_value m = None \<and> team m = name t"
  using assms
  by (auto simp: get_possible_moves_def Let_def split: sum.splits if_splits
      dest: collect_raise)

lemma collect_singletons:
  "(\<And>x. x \<in> set xs \<Longrightarrow> f x = Inr [g x]) \<Longrightarrow> collect f xs = Inr (map g xs)"
  by (induction xs) simp_all

lemma cells_of_board:
  "set (List.product (map int [0..<8]) (map int [0..<8])) =
     {(x, y). 0 \<le> x \<and> x \<le> 7 \<and> 0 \<le> y \<and> y \<le> 7}"
proof -
  have "int ` {0..<8} = {0..<8}"
    using image_int_atLeastLessThan [of 0 8] by simp
  then have "set (map int [0..<8]) = {x. 0 \<le> x \<and> x \<le> 7}"
    by auto
  then show ?thesis by auto
qed

lemma field_of_cell:
  assumes "0 \<le> x" "x \<le> 7" "0 \<le> y" "y \<le> 7"
  shows "\<exists>fld. get_field b (y * 8 + x) = Inr fld \<and>
          get_field_opt b (to_index \<lparr>cart_x = x, cart_y = y\<rparr>) = Inr fld"
proof -
  have i: "0 \<le> y * 8 + x" "y * 8 + x \<le> 63" using assms by auto
  from get_field_total [OF i] obtain fld where "get_field b (y * 8 + x) = Inr fld" ..
  moreover have "to_index \<lparr>cart_x = x, cart_y = y\<rparr> = Some (y * 8 + x)"
    using assms by (simp add: to_index_def)
  ultimately show ?thesis by (simp add: get_field_opt_def)
qed

lemma all_fields_set:
  "\<exists>flds. all_fields b = Inr flds \<and>
          set flds = {fld. \<exists>i. 0 \<le> i \<and> i \<le> 63 \<and> get_field b i = Inr fld}"
proof -
  define g where "g = (\<lambda>p :: int \<times> int. projr (get_field b (snd p * 8 + fst p)))"
  define cells where "cells = List.product (map int [0..<8]) (map int [0..<8])"
  have cells: "p \<in> set cells \<longleftrightarrow> 0 \<le> fst p \<and> fst p \<le> 7 \<and> 0 \<le> snd p \<and> snd p \<le> 7" for p
    unfolding cells_def cells_of_board by (cases p) simp
  have body: "(case p of (x, y) \<Rightarrow>
                 case get_field_opt b (to_index \<lparr>cart_x = x, cart_y = y\<rparr>) of
                   Inl e \<Rightarrow> Inl e | Inr fld \<Rightarrow> Inr [fld]) = Inr [g p]"
    if "p \<in> set cells" for p
  proof (cases p)
    case (Pair x y)
    with that cells [of p] have r: "0 \<le> x" "x \<le> 7" "0 \<le> y" "y \<le> 7" by simp_all
    from field_of_cell [OF r, of b] show ?thesis
      by (auto simp: Pair g_def)
  qed
  have a: "all_fields b = Inr (map g cells)"
    unfolding all_fields_def cells_def [symmetric] by (rule collect_singletons) (rule body)
  have "g ` set cells = {fld. \<exists>i. 0 \<le> i \<and> i \<le> 63 \<and> get_field b i = Inr fld}"
  proof (intro set_eqI iffI)
    fix fld assume "fld \<in> g ` set cells"
    then obtain p where p: "p \<in> set cells" and fld: "fld = g p" by blast
    obtain x y where xy: "p = (x, y)" by (cases p)
    with p cells [of p] have r: "0 \<le> x" "x \<le> 7" "0 \<le> y" "y \<le> 7" by simp_all
    from field_of_cell [OF r, of b] obtain f where f: "get_field b (y * 8 + x) = Inr f" by blast
    have "fld = f" by (simp add: fld g_def xy f)
    moreover have "0 \<le> y * 8 + x" "y * 8 + x \<le> 63" using r by auto
    ultimately have "\<exists>i. 0 \<le> i \<and> i \<le> 63 \<and> get_field b i = Inr fld"
      using f by blast
    then show "fld \<in> {fld. \<exists>i. 0 \<le> i \<and> i \<le> 63 \<and> get_field b i = Inr fld}" by simp
  next
    fix fld assume "fld \<in> {fld. \<exists>i. 0 \<le> i \<and> i \<le> 63 \<and> get_field b i = Inr fld}"
    then obtain i where i: "0 \<le> i" "i \<le> 63" and f: "get_field b i = Inr fld" by blast
    have m: "0 \<le> i mod 8" "i mod 8 \<le> 7" "0 \<le> i div 8" "i div 8 \<le> 7"
      using i by auto
    then have "(i mod 8, i div 8) \<in> set cells"
      using cells [of "(i mod 8, i div 8)"] by simp
    moreover have "g (i mod 8, i div 8) = fld" by (simp add: g_def f)
    ultimately show "fld \<in> g ` set cells" by blast
  qed
  then have "set (map g cells) = {fld. \<exists>i. 0 \<le> i \<and> i \<le> 63 \<and> get_field b i = Inr fld}"
    by (simp only: set_map)
  with a show ?thesis by blast
qed

text \<open>
  While fewer than four penguins of a team are on the board, \<^verbatim>\<open>_get_possible_moves\<close>
  returns, without an exception, exactly the placement moves of that team onto the fields
  that hold no penguin and whose fish count is one.
\<close>

theorem placements_while_placing:
  assumes "get_teams_penguins b (name t) = Inr ps" and "length ps < 4"
  shows "\<exists>ms. get_possible_moves b t = Inr ms \<and>
              set ms = {\<lparr>from_value = None, to_value = coordinate fld, team = name t\<rparr> | fld i.
                         0 \<le> i \<and> i \<le> 63 \<and> get_field b i = Inr fld \<and>
                         penguin fld = None \<and> fish fld = 1}"
proof -
  from all_fields_set obtain flds where a: "all_fields b = Inr flds"
    and s: "set flds = {fld. \<exists>i. 0 \<le> i \<and> i \<le> 63 \<and> get_field b i = Inr fld}" by blast
  have "get_possible_moves b t =
          Inr (map (\<lambda>fld. \<lparr>from_value = None, to_value = coordinate fld, team = name t\<rparr>)
                 (filter (\<lambda>fld. penguin fld = None \<and> fish fld = 1) flds))"
    using assms a by (simp add: get_possible_moves_def Let_def)
  moreover have "set (map (\<lambda>fld. \<lparr>from_value = None, to_value = coordinate fld, team = name t\<rparr>)
                 (filter (\<lambda>fld. penguin fld = None \<and> fish fld = 1) flds)) =
        {\<lparr>from_value = None, to_value = coordinate fld, team = name t\<rparr> | fld i.
                         0 \<le> i \<and> i \<le> 63 \<and> get_field b i = Inr fld \<and>
                         penguin fld = None \<and> fish fld = 1}"
    using s by auto
  ultimately show ?thesis by simp
qed

lemma scenario_A_penguins:
  "get_teams_penguins scenario_A (name team_one) =
     Inr [\<lparr>position = \<lparr>hex_x = 0, hex_y = 0\<rparr>, penguin_team = ONE\<rparr>]"
  by code_simp

theorem placements_while_placing_witness:
  "\<exists>ms. get_possible_moves scenario_A team_one = Inr ms \<and>
        set ms = {\<lparr>from_value = None, to_value = coordinate fld, team = name team_one\<rparr> | fld i.
                   0 \<le> i \<and> i \<le> 63 \<and> get_field scenario_A i = Inr fld \<and>
                   penguin fld = None \<and> fish fld = 1}"
  using placements_while_placing [OF scenario_A_penguins] by simp

lemma GameState_init_moves:
  assumes "GameState_init free b n st fs lm = Inr s"
  shows "current_team_from_turn b n st = Inr (current_team s) \<and>
         (\<exists>ms. get_possible_moves b (current_team s) = Inr ms \<and>
               possible_moves s = zip [free..<free + length ms] ms)"
  using assms by (auto simp: GameState_init_def split: sum.splits)

lemma constructed_moves_have_no_origin:
  assumes "GameState_init free b n st fs lm = Inr s" and "m \<in> set (possible_moves s)"
  shows "from_value (snd m) = None"
proof -
  from GameState_init_moves [OF assms(1)] obtain ms
    where ms: "get_possible_moves b (current_team s) = Inr ms"
      and z: "possible_moves s = zip [free..<free + length ms] ms" by blast
  from assms(2) z have "snd m \<in> set ms"
    by (metis in_set_zipE prod.collapse)
  with ms show ?thesis using possible_moves_are_placements by blast
qed

lemma Board_move_placement:
  "from_value m = None \<Longrightarrow> Board_move b m = (Inl AttributeError, b)"
  by (simp add: Board_move_def)

lemma perform_move_legal_raises:
  assumes "GameState_init free b n st fs lm = Inr s" and "m \<in> set (possible_moves s)"
  shows "perform_move free2 s m = (Inl AttributeError, s)"
proof -
  have "from_value (snd m) = None"
    using assms by (rule constructed_moves_have_no_origin)
  moreover have "is_valid_move s m"
    using assms(2) by (auto simp: is_valid_move_def)
  ultimately show ?thesis
    by (simp add: perform_move_def Board_move_placement)
qed

lemma perform_move_foreign_object:
  "fst m \<notin> fst ` set (possible_moves s) \<Longrightarrow> perform_move free2 s m = (Inl InvalidMove, s)"
  by (simp add: perform_move_def is_valid_move_def)

lemma scenario_A_state:
  "GameState_init 10 scenario_A 0 team_one no_fishes None =
     Inr (sliding_state
            \<lparr>possible_moves :=
               [(10, place_A), (11, place_A\<lparr>to_value := \<lparr>hex_x = 4, hex_y = 0\<rparr>\<rparr>)]\<rparr>)"
  by code_simp

text \<open>
  Claim C7. With the four penguins of team ONE placed (board \<^term>\<open>four_placed\<close>, turn 0,
  team ONE starts) the penguin on cell 3 can slide to the cells 4, 5, 6 and 7, so the team
  by turn has legal moves; \<^verbatim>\<open>current_team_from_turn\<close> does not return that team but
  raises \<^verbatim>\<open>TypeError\<close> out of \<^verbatim>\<open>_get_possible_moves\<close>. While a team is still placing, the
  method returns: team ONE on the board of scenario A, and the opponent
  \<^verbatim>\<open>Team(TeamEnum.TWO, [], 0)\<close> on the empty board, where team ONE has no move.
\<close>

theorem current_team_from_turn_raises_when_sliding:
  "current_team_from_turn four_placed 0 team_one = Inl TypeError \<and>
   possible_moves_from four_placed 3 ONE =
     Some (Inr (map (slide_to 3 \<lparr>d_x = 2, d_y = 0\<rparr> ONE) [1, 2, 3, 4])) \<and>
   current_team_from_turn scenario_A 0 team_one = Inr team_one \<and>
   current_team_from_turn empty_board 0 team_one =
     Inr \<lparr>name = TWO, penguins = Some [], team_fish = 0\<rparr>"
  by code_simp

section \<open>Performing a move\<close>

text \<open>
  Claim C3. On the state built from the board of scenario A, the legal moves are the two
  placement moves, and \<^verbatim>\<open>perform_move\<close> on the first of them (the very object of
  \<^verbatim>\<open>possible_moves\<close>) raises \<^verbatim>\<open>AttributeError\<close> inside \<^verbatim>\<open>Board.move\<close>: no new state is
  returned.
\<close>

theorem perform_move_raises_on_legal_move:
  "case GameState_init 10 scenario_A 0 team_one no_fishes None of
     Inl e \<Rightarrow> False
   | Inr s \<Rightarrow>
       possible_moves s = [(10, place_A), (11, place_A\<lparr>to_value := \<lparr>hex_x = 4, hex_y = 0\<rparr>\<rparr>)] \<and>
       perform_move 12 s (10, place_A) = (Inl AttributeError, s)"
  by code_simp


text \<open>
  Claim C5. A fresh \<^verbatim>\<open>Move\<close> object (address 12) with the content of the first legal move
  is not found by \<^verbatim>\<open>move in self.possible_moves\<close>: \<^verbatim>\<open>perform_move\<close> raises the
  invalid-move error on a move that is structurally equal to a legal one.
\<close>

theorem perform_move_rejects_equal_move:
  "case GameState_init 10 scenario_A 0 team_one no_fishes None of
     Inl e \<Rightarrow> False
   | Inr s \<Rightarrow>
       place_A \<in> set (map snd (possible_moves s)) \<and>
       perform_move 12 s (12, place_A) = (Inl InvalidMove, s)"
  by code_simp

section \<open>Slides follow the ray\<close>

lemma ray_cell_0: "ray_cell i d 0 = to_hex \<lparr>cart_x = i mod 8, cart_y = i div 8\<rparr>"
  by (simp add: ray_cell_def add_vector_def scalar_product_def)

lemma ray_cell_Suc: "add_vector (ray_cell i d k) d = ray_cell i d (Suc k)"
  by (simp add: ray_cell_def add_vector_def scalar_product_def algebra_simps)

lemma directions_cases:
  assumes "d \<in> set directions"
  shows "d_y d \<in> {1, -1} \<and> d_x d \<in> {1, -1} \<or> d_y d = 0 \<and> d_x d \<in> {2, -2}"
  using assms by (auto simp: directions_def)

lemma hex_parity: "hex_x (to_hex c) mod 2 = hex_y (to_hex c) mod 2"
proof (cases "cart_y c mod 2 = 1")
  case True
  then show ?thesis by (simp add: to_hex_def)
next
  case False
  then have "cart_y c mod 2 = 0" by presburger
  then show ?thesis by (simp add: to_hex_def)
qed

lemma ray_cell_parity:
  assumes "d \<in> set directions"
  shows "hex_x (ray_cell i d k) mod 2 = hex_y (ray_cell i d k) mod 2"
proof -
  have "d_x d mod 2 = d_y d mod 2"
    using directions_cases [OF assms] by auto
  then have "(d_x d * int k) mod 2 = (d_y d * int k) mod 2"
    by (rule mod_mult_cong) simp
  with hex_parity
  have "(hex_x (to_hex \<lparr>cart_x = i mod 8, cart_y = i div 8\<rparr>) + d_x d * int k) mod 2 =
        (hex_y (to_hex \<lparr>cart_x = i mod 8, cart_y = i div 8\<rparr>) + d_y d * int k) mod 2"
    by (rule mod_add_cong)
  then show ?thesis
    by (simp add: ray_cell_def add_vector_def scalar_product_def)
qed

lemma to_index_row_off:
  "cart_y c < 0 \<or> 7 < cart_y c \<Longrightarrow> to_index c = None"
  by (auto simp: to_index_def)

lemma to_index_column_off:
  "cart_x c < 0 \<or> 7 < cart_x c \<Longrightarrow> to_index c = None"
  by (auto simp: to_index_def)

lemma row_of_ray: "cart_y (to_cartesian (ray_cell i d k)) = i div 8 + d_y d * int k"
  by (simp add: to_cartesian_int ray_cell_def add_vector_def scalar_product_def to_hex_def)

lemma column_of_level_ray:
  assumes "d_y d = 0" and "d_x d = 2 * a"
  shows "cart_x (to_cartesian (ray_cell i d k)) = i mod 8 + a * int k"
proof -
  have "(x * 2 + p + 2 * a * int k + 1) div 2 - p = x + a * int k"
    if "p = 0 \<or> p = 1" for x p :: int
    using that by auto
  from this [of "if (i div 8) mod 2 = 1 then 1 else 0" "i mod 8"]
  show ?thesis
    by (simp add: to_cartesian_int ray_cell_def add_vector_def scalar_product_def to_hex_def assms)
qed

lemma ray_leaves_board:
  assumes "0 \<le> i" "i \<le> 63" "d \<in> set directions"
  shows "to_index (to_cartesian (ray_cell i d 8)) = None"
proof -
  have r: "0 \<le> i mod 8" "i mod 8 \<le> 7" "0 \<le> i div 8" "i div 8 \<le> 7"
    using assms(1,2) by auto
  from directions_cases [OF assms(3)] show ?thesis
  proof (elim disjE conjE)
    assume "d_y d \<in> {1, -1}"
    then have "cart_y (to_cartesian (ray_cell i d 8)) < 0 \<or> 7 < cart_y (to_cartesian (ray_cell i d 8))"
      using r unfolding row_of_ray by auto
    then show ?thesis by (rule to_index_row_off)
  next
    assume a: "d_y d = 0" "d_x d \<in> {2, -2}"
    then have "d_x d = 2 * 1 \<or> d_x d = 2 * (-1)" by auto
    then have "cart_x (to_cartesian (ray_cell i d 8)) = i mod 8 + 8 \<or>
               cart_x (to_cartesian (ray_cell i d 8)) = i mod 8 - 8"
      using column_of_level_ray [OF a(1), of 1 i 8] column_of_level_ray [OF a(1), of "-1" i 8]
      by auto
    then have "cart_x (to_cartesian (ray_cell i d 8)) < 0 \<or> 7 < cart_x (to_cartesian (ray_cell i d 8))"
      using r by auto
    then show ?thesis by (rule to_index_column_off)
  qed
qed

lemma step_along_ray:
  assumes "d \<in> set directions" and "to_index (to_cartesian (ray_cell i d k)) = Some j"
  shows "from_index j = Inr (to_cartesian (ray_cell i d k))"
    and "to_hex (to_cartesian (ray_cell i d k)) = ray_cell i d k"
    and "step_index j d = Inr (to_index (to_cartesian (ray_cell i d (Suc k))))"
    and "j < 64"
proof -
  show a: "from_index j = Inr (to_cartesian (ray_cell i d k))"
    using from_index_to_index [OF assms(2)] by simp
  show b: "to_hex (to_cartesian (ray_cell i d k)) = ray_cell i d k"
    using ray_cell_parity [OF assms(1)] by (rule to_hex_to_cartesian)
  show "step_index j d = Inr (to_index (to_cartesian (ray_cell i d (Suc k))))"
    by (simp add: step_index_def a b ray_cell_Suc)
  show "j < 64" using from_index_to_index [OF assms(2)] by simp
qed

lemma directive_loop_ray:
  assumes d: "d \<in> set directions"
    and free: "\<And>j. k \<le> j \<Longrightarrow> j < N \<Longrightarrow> landing b (ray_cell i d j)"
    and stop: "\<not> landing b (ray_cell i d N)"
    and kN: "k \<le> N"
  shows "directive_loop b (ray_cell i d 0) d t (to_index (to_cartesian (ray_cell i d k))) acc =
           Some (Inr (acc @ map (slide_to i d t) [k..<N]))"
  using free kN
proof (induction "N - k" arbitrary: k acc)
  case 0
  then have "k = N" by simp
  with stop have "\<not> landing b (ray_cell i d k)" by simp
  then show ?case
    by (subst directive_loop.simps) (auto simp: landing_def \<open>k = N\<close> split: option.splits)
next
  case (Suc m)
  then have lt: "k < N" by simp
  then have "landing b (ray_cell i d k)" using Suc.prems(1) by simp
  then obtain j where j: "to_index (to_cartesian (ray_cell i d k)) = Some j"
    and ok: "\<not> is_occupied b j" "get_fish b j > 0"
    by (auto simp: landing_def split: option.splits)
  note s = step_along_ray [OF d j]
  have ih: "directive_loop b (ray_cell i d 0) d t (to_index (to_cartesian (ray_cell i d (Suc k))))
              (acc @ [slide_to i d t k]) =
            Some (Inr ((acc @ [slide_to i d t k]) @ map (slide_to i d t) [Suc k..<N]))"
  proof (rule Suc.hyps(1))
    show "m = N - Suc k" using Suc.hyps(2) by simp
    show "landing b (ray_cell i d j)" if "Suc k \<le> j" "j < N" for j
      using that Suc.prems(1) by simp
    show "Suc k \<le> N" using lt by simp
  qed
  have "directive_loop b (ray_cell i d 0) d t (Some j) acc =
        directive_loop b (ray_cell i d 0) d t (to_index (to_cartesian (ray_cell i d (Suc k))))
          (acc @ [slide_to i d t k])"
    by (subst directive_loop.simps) (simp add: s ok is_valid_def slide_to_def)
  with ih show ?case
    by (simp add: j upt_conv_Cons [OF lt])
qed

lemma directive_moves_follow_ray:
  assumes "0 \<le> index" "index \<le> 63" "is_team b t index" "d \<in> set directions"
  shows "\<exists>n. get_directive_moves b index d t = Some (Inr (map (slide_to index d t) [1..<Suc n])) \<and>
             (\<forall>k. 1 \<le> k \<and> k \<le> n \<longrightarrow> landing b (ray_cell index d k)) \<and>
             \<not> landing b (ray_cell index d (Suc n))"
proof -
  let ?P = "\<lambda>k. 1 \<le> k \<and> \<not> landing b (ray_cell index d k)"
  have "?P 8"
    using ray_leaves_board [OF assms(1,2,4)] by (simp add: landing_def)
  then have "\<exists>N. ?P N \<and> (\<forall>m<N. \<not> ?P m)"
    using exists_least_iff [of ?P] by blast
  then obtain N where N: "1 \<le> N" "\<not> landing b (ray_cell index d N)"
    and least: "\<And>m. m < N \<Longrightarrow> 1 \<le> m \<Longrightarrow> landing b (ray_cell index d m)"
    by blast
  have loop: "directive_loop b (ray_cell index d 0) d t
                (to_index (to_cartesian (ray_cell index d 1))) [] =
              Some (Inr ([] @ map (slide_to index d t) [1..<N]))"
    by (rule directive_loop_ray [OF assms(4) _ N(2) N(1)]) (simp add: least)
  have first: "step_index index d = Inr (to_index (to_cartesian (ray_cell index d 1)))"
    using ray_cell_Suc [of index d 0]
    by (simp add: step_index_def from_index_in_range assms ray_cell_0)
  have "get_directive_moves b index d t = Some (Inr (map (slide_to index d t) [1..<N]))"
    using loop
    by (simp add: get_directive_moves_def from_index_in_range assms first ray_cell_0 Let_def)
  moreover obtain n where n: "N = Suc n" using N(1) by (cases N) auto
  ultimately show ?thesis
    using N(2) least by (intro exI [of _ n]) (auto simp: n)
qed

lemma scenario_A_slides:
  "get_directive_moves scenario_A 0 \<lparr>d_x = 2, d_y = 0\<rparr> ONE =
     Some (Inr [slide_A, slide_A\<lparr>to_value := \<lparr>hex_x = 4, hex_y = 0\<rparr>\<rparr>]) \<and>
   to_index (to_cartesian \<lparr>hex_x = 2, hex_y = 0\<rparr>) = Some 1 \<and>
   to_index (to_cartesian \<lparr>hex_x = 4, hex_y = 0\<rparr>) = Some 2"
  by code_simp

text \<open>
  Claim C6. For a cell \<open>index\<close> of the board that holds a penguin of team \<open>t\<close> and a
  direction \<open>d\<close> of the six, \<^verbatim>\<open>get_directive_moves\<close> returns, without an exception, the
  slides by 1, 2, ..., \<open>n\<close> steps in this order, where the cells 1 to \<open>n\<close> steps away
  along the ray can all be landed on and the cell \<open>n + 1\<close> steps away cannot (it is off the
  board, occupied or without fish). On the board of scenario A, direction (2, 0) from cell
  0 gives exactly two moves, to cell 1 and then to cell 2.
\<close>

theorem get_directive_moves_ray:
  "(\<forall>b index d t.
      0 \<le> index \<and> index \<le> 63 \<and> is_team b t index \<and> d \<in> set directions \<longrightarrow>
      (\<exists>n. get_directive_moves b index d t = Some (Inr (map (slide_to index d t) [1..<Suc n])) \<and>
           (\<forall>k. 1 \<le> k \<and> k \<le> n \<longrightarrow> landing b (ray_cell index d k)) \<and>
           \<not> landing b (ray_cell index d (Suc n)))) \<and>
   get_directive_moves scenario_A 0 \<lparr>d_x = 2, d_y = 0\<rparr> ONE =
     Some (Inr [slide_A, slide_A\<lparr>to_value := \<lparr>hex_x = 4, hex_y = 0\<rparr>\<rparr>]) \<and>
   to_index (to_cartesian \<lparr>hex_x = 2, hex_y = 0\<rparr>) = Some 1 \<and>
   to_index (to_cartesian \<lparr>hex_x = 4, hex_y = 0\<rparr>) = Some 2"
  using directive_moves_follow_ray scenario_A_slides by blast

theorem get_directive_moves_ray_witness:
  "is_team scenario_A ONE 0 \<and> \<lparr>d_x = 1, d_y = 1\<rparr> \<in> set directions \<and>
   (\<exists>n. get_directive_moves scenario_A 0 \<lparr>d_x = 1, d_y = 1\<rparr> ONE =
          Some (Inr (map (slide_to 0 \<lparr>d_x = 1, d_y = 1\<rparr> ONE) [1..<Suc n])) \<and>
        \<not> landing scenario_A (ray_cell 0 \<lparr>d_x = 1, d_y = 1\<rparr> (Suc n)))"
proof -
  have a: "is_team scenario_A ONE 0"
    by (simp add: is_team_def scenario_A_def bit_at_def)
  have b: "\<lparr>d_x = 1, d_y = 1\<rparr> \<in> set directions"
    by (simp add: directions_def)
  from get_directive_moves_ray a b
  have "\<exists>n. get_directive_moves scenario_A 0 \<lparr>d_x = 1, d_y = 1\<rparr> ONE =
              Some (Inr (map (slide_to 0 \<lparr>d_x = 1, d_y = 1\<rparr> ONE) [1..<Suc n])) \<and>
            (\<forall>k. 1 \<le> k \<and> k \<le> n \<longrightarrow> landing scenario_A (ray_cell 0 \<lparr>d_x = 1, d_y = 1\<rparr> k)) \<and>
            \<not> landing scenario_A (ray_cell 0 \<lparr>d_x = 1, d_y = 1\<rparr> (Suc n))"
    by simp
  with a b show ?thesis by blast
qed

end
